theory Spec2Isabelle
  imports Main "HOL-Library.AList"
begin

unbundle bit_operations_syntax

section \<open>Python strings and dictionaries\<close>

text \<open>
  A Python \<open>str\<close> is modelled as a \<open>string\<close> whose characters are the bytes of its
  UTF-8 encoding, so \<open>s.encode("utf-8")\<close> is the list of the character codes. Methods
  that look at characters (\<open>isdigit\<close>, \<open>strip\<close>, \<open>int\<close>) work on the code points,
  which \<open>utf8_chars\<close> reads back from the bytes; the tables are those of Unicode 14.0.0
  (CPython 3.11). \<open>lower\<close> maps \<open>A..Z\<close> to \<open>a..z\<close> and leaves every other byte as it
  is; the code compares its results with ASCII text only. Python integers are unbounded
  and are modelled by \<open>int\<close>.
\<close>

text \<open>The exceptions the code raises, catches or lets through.\<close>

datatype exn =
    TimeoutError
  | ValueError
  | OverflowError
  | ApiError "string option"
  | StatusError "string option"
  | GenerationFailed "string option"
  | OtherError

definition char_code :: "char \<Rightarrow> nat" where
  "char_code c = of_char c"

definition lower_char :: "char \<Rightarrow> char" where
  "lower_char c =
     (case map_of (zip ''ABCDEFGHIJKLMNOPQRSTUVWXYZ'' ''abcdefghijklmnopqrstuvwxyz'') c of
        Some l \<Rightarrow> l
      | None \<Rightarrow> c)"

definition py_lower :: "string \<Rightarrow> string" where
  "py_lower s = map lower_char s"

subsection \<open>Code points\<close>

definition is_cont :: "char \<Rightarrow> bool" where
  "is_cont c = (128 \<le> char_code c \<and> char_code c < 192)"

text \<open>
  The characters of a string: each code point with the bytes that encode it. A byte
  that starts no well-formed sequence (there is none in the encoding of a Python
  string) is a character of its own with the code point U+FFFD.
\<close>

fun utf8_chars :: "string \<Rightarrow> (nat \<times> string) list" where
  "utf8_chars [] = []"
| "utf8_chars (b # r) =
     (if char_code b < 128 then (char_code b, [b]) # utf8_chars r
      else if 194 \<le> char_code b \<and> char_code b < 224 then
        (case r of
           c1 # r1 \<Rightarrow>
             if is_cont c1
             then ((char_code b - 192) * 64 + (char_code c1 - 128), [b, c1]) # utf8_chars r1
             else (65533, [b]) # utf8_chars r
         | [] \<Rightarrow> (65533, [b]) # utf8_chars r)
      else if 224 \<le> char_code b \<and> char_code b < 240 then
        (case r of
           c1 # c2 # r2 \<Rightarrow>
             if is_cont c1 \<and> is_cont c2
             then (((char_code b - 224) * 64 + (char_code c1 - 128)) * 64 + (char_code c2 - 128),
                   [b, c1, c2]) # utf8_chars r2
             else (65533, [b]) # utf8_chars r
         | _ \<Rightarrow> (65533, [b]) # utf8_chars r)
      else if 240 \<le> char_code b \<and> char_code b < 245 then
        (case r of
           c1 # c2 # c3 # r3 \<Rightarrow>
             if is_cont c1 \<and> is_cont c2 \<and> is_cont c3
             then ((((char_code b - 240) * 64 + (char_code c1 - 128)) * 64 + (char_code c2 - 128)) * 64
                     + (char_code c3 - 128),
                   [b, c1, c2, c3]) # utf8_chars r3
             else (65533, [b]) # utf8_chars r
         | _ \<Rightarrow> (65533, [b]) # utf8_chars r)
      else (65533, [b]) # utf8_chars r)"

text \<open>
  The decimal digits of Unicode (category Nd) come in runs of ten, zero to nine; the
  list holds the code point of each zero. \<open>int\<close> reads exactly these.
\<close>

definition decimal_zeros :: "nat list" where
  "decimal_zeros =
     [48, 1632, 1776, 1984, 2406, 2534, 2662, 2790, 2918, 3046, 3174, 3302, 3430, 3558, 3664,
      3792, 3872, 4160, 4240, 6112, 6160, 6470, 6608, 6784, 6800, 6992, 7088, 7232, 7248, 42528,
      43216, 43264, 43472, 43504, 43600, 44016, 65296, 66720, 68912, 69734, 69872, 69942, 70096,
      70384, 70736, 70864, 71248, 71360, 71472, 71904, 72016, 72784, 73040, 73120, 92768, 92864,
      93008, 120782, 120792, 120802, 120812, 120822, 123200, 123632, 125264, 130032]"

definition decimal_value :: "nat \<Rightarrow> nat option" where
  "decimal_value cp =
     (case find (\<lambda>z. z \<le> cp \<and> cp < z + 10) decimal_zeros of
        Some z \<Rightarrow> Some (cp - z)
      | None \<Rightarrow> None)"

text \<open>
  The other characters for which \<open>isdigit\<close> holds (superscripts, circled digits and
  the like), as ranges of code points. \<open>int\<close> raises ValueError on them.
\<close>

definition other_digit_ranges :: "(nat \<times> nat) list" where
  "other_digit_ranges =
     [(178, 179), (185, 185), (4969, 4977), (6618, 6618), (8304, 8304), (8308, 8313),
      (8320, 8329), (9312, 9320), (9332, 9340), (9352, 9360), (9450, 9450), (9461, 9469),
      (9471, 9471), (10102, 10110), (10112, 10120), (10122, 10130), (68160, 68163),
      (69216, 69224), (69714, 69722), (127232, 127242)]"

definition is_digit_cp :: "nat \<Rightarrow> bool" where
  "is_digit_cp cp =
     (decimal_value cp \<noteq> None \<or> list_ex (\<lambda>r. fst r \<le> cp \<and> cp \<le> snd r) other_digit_ranges)"

text \<open>\<open>s.isdigit()\<close>: the string is not empty and all its characters are digits.\<close>

definition py_isdigit :: "string \<Rightarrow> bool" where
  "py_isdigit s = (s \<noteq> [] \<and> list_all (\<lambda>c. is_digit_cp (fst c)) (utf8_chars s))"

fun digits_value :: "nat list \<Rightarrow> int \<Rightarrow> int option" where
  "digits_value [] acc = Some acc"
| "digits_value (cp # r) acc =
     (case decimal_value cp of
        None \<Rightarrow> None
      | Some d \<Rightarrow> digits_value r (10 * acc + int d))"

text \<open>
  \<open>int(s)\<close> for a string of digit characters, which is what the code passes: the
  number when all are decimal digits and there are at most 4300 of them
  (\<open>sys.int_max_str_digits\<close>), and \<open>None\<close> for ValueError.
\<close>

definition py_int :: "string \<Rightarrow> int option" where
  "py_int s =
     (let cps = map fst (utf8_chars s)
      in if cps = [] \<or> length cps > 4300 then None else digits_value cps 0)"

text \<open>The characters \<open>strip\<close> removes (\<open>str.isspace\<close>).\<close>

definition is_space_cp :: "nat \<Rightarrow> bool" where
  "is_space_cp cp =
     ((9 \<le> cp \<and> cp \<le> 13) \<or> (28 \<le> cp \<and> cp \<le> 32) \<or> cp = 133 \<or> cp = 160 \<or> cp = 5760
      \<or> (8192 \<le> cp \<and> cp \<le> 8202) \<or> cp = 8232 \<or> cp = 8233 \<or> cp = 8239 \<or> cp = 8287
      \<or> cp = 12288)"

definition py_strip :: "string \<Rightarrow> string" where
  "py_strip s =
     concat (map snd (rev (dropWhile (\<lambda>c. is_space_cp (fst c))
                        (rev (dropWhile (\<lambda>c. is_space_cp (fst c)) (utf8_chars s))))))"

text \<open>\<open>s.split(sep)\<close> for a separator of one character: never the empty list.\<close>

fun py_split :: "char \<Rightarrow> string \<Rightarrow> string list" where
  "py_split sep [] = [[]]"
| "py_split sep (c # cs) =
     (if c = sep then [] # py_split sep cs
      else (case py_split sep cs of w # ws \<Rightarrow> (c # w) # ws | [] \<Rightarrow> [[c]]))"

text \<open>
  \<open>s.split(sep, 1)\<close> when \<open>sep\<close> occurs in \<open>s\<close>: the text before the first separator
  and the text after it. \<open>split1_snd\<close> is the element \<open>[1]\<close>, which does not exist
  (\<open>None\<close>, an IndexError) when the separator does not occur.
\<close>

definition split1_fst :: "char \<Rightarrow> string \<Rightarrow> string" where
  "split1_fst sep s = takeWhile (\<lambda>c. c \<noteq> sep) s"

definition split1_snd :: "char \<Rightarrow> string \<Rightarrow> string option" where
  "split1_snd sep s =
     (case dropWhile (\<lambda>c. c \<noteq> sep) s of [] \<Rightarrow> None | _ # r \<Rightarrow> Some r)"

fun py_join :: "string \<Rightarrow> string list \<Rightarrow> string" where
  "py_join sep [] = []"
| "py_join sep [x] = x"
| "py_join sep (x # y # r) = x @ sep @ py_join sep (y # r)"

fun py_startswith :: "string \<Rightarrow> string \<Rightarrow> bool" where
  "py_startswith [] s = True"
| "py_startswith (p # ps) [] = False"
| "py_startswith (p # ps) (c # cs) = (p = c \<and> py_startswith ps cs)"

text \<open>
  A \<open>Dict[str, str]\<close> is an association list kept in insertion order, with distinct keys:
  \<open>d[k] = v\<close> is \<open>AList.update k v d\<close> (replace in place, or append), \<open>d.get(k)\<close> is
  \<open>map_of d k\<close>, and \<open>d.items()\<close> is the list itself.
\<close>

type_synonym py_dict = "(string \<times> string) list"

definition dict_get :: "py_dict \<Rightarrow> string \<Rightarrow> string \<Rightarrow> string" where
  "dict_get d k dflt = (case map_of d k of Some v \<Rightarrow> v | None \<Rightarrow> dflt)"

text \<open>Python's \<open>a or b\<close> on values that are \<open>None\<close> or a string: \<open>a\<close> when it is truthy.\<close>

definition truthy :: "string option \<Rightarrow> bool" where
  "truthy v = (case v of None \<Rightarrow> False | Some s \<Rightarrow> s \<noteq> [])"

definition py_or :: "string option \<Rightarrow> string option \<Rightarrow> string option" where
  "py_or a b = (if truthy a then a else b)"

section \<open>SHA-1 (\<open>hashlib.sha1(...).hexdigest()\<close>)\<close>

text \<open>
  The library function, after FIPS 180-4. A 32-bit word is a natural number below
  \<open>2^32\<close> with the wrap-around written out; the message is a list of bytes.
\<close>

definition add32 :: "nat \<Rightarrow> nat \<Rightarrow> nat" where
  "add32 x y = (x + y) mod 4294967296"

definition rotl32 :: "nat \<Rightarrow> nat \<Rightarrow> nat" where
  "rotl32 n x = (x * 2 ^ n) mod 4294967296 + x div 2 ^ (32 - n)"

definition be64 :: "nat \<Rightarrow> nat list" where
  "be64 n = [n div 2 ^ 56 mod 256, n div 2 ^ 48 mod 256, n div 2 ^ 40 mod 256,
             n div 2 ^ 32 mod 256, n div 2 ^ 24 mod 256, n div 2 ^ 16 mod 256,
             n div 2 ^ 8 mod 256, n mod 256]"

definition sha1_pad :: "nat list \<Rightarrow> nat list" where
  "sha1_pad m = m @ [128] @ replicate ((119 - length m mod 64) mod 64) 0 @ be64 (8 * length m)"

fun be_words :: "nat list \<Rightarrow> nat list" where
  "be_words (a # b # c # d # r) = (((a * 256 + b) * 256 + c) * 256 + d) # be_words r"
| "be_words _ = []"

function blocks :: "nat list \<Rightarrow> nat list list" where
  "blocks [] = []"
| "blocks (w # ws) = take 16 (w # ws) # blocks (drop 16 (w # ws))"
  by pat_completeness auto
termination
  by (relation "measure length") auto

fun schedule :: "nat \<Rightarrow> nat list \<Rightarrow> nat list" where
  "schedule 0 w = w"
| "schedule (Suc n) w =
     schedule n (w @ [rotl32 1 (w ! (length w - 3) XOR w ! (length w - 8)
                               XOR w ! (length w - 14) XOR w ! (length w - 16))])"

type_synonym sha1_state = "nat \<times> nat \<times> nat \<times> nat \<times> nat"

definition f_ch :: "nat \<Rightarrow> nat \<Rightarrow> nat \<Rightarrow> nat" where
  "f_ch b c d = (b AND c) OR ((b XOR 4294967295) AND d)"

definition f_parity :: "nat \<Rightarrow> nat \<Rightarrow> nat \<Rightarrow> nat" where
  "f_parity b c d = b XOR c XOR d"

definition f_maj :: "nat \<Rightarrow> nat \<Rightarrow> nat \<Rightarrow> nat" where
  "f_maj b c d = (b AND c) OR (b AND d) OR (c AND d)"

fun rounds :: "(nat \<Rightarrow> nat \<Rightarrow> nat \<Rightarrow> nat) \<Rightarrow> nat \<Rightarrow> nat list \<Rightarrow> sha1_state \<Rightarrow> sha1_state" where
  "rounds f k [] s = s"
| "rounds f k (w # ws) (a, b, c, d, e) =
     rounds f k ws ((rotl32 5 a + f b c d + e + k + w) mod 4294967296, a, rotl32 30 b, c, d)"

definition compress :: "sha1_state \<Rightarrow> nat list \<Rightarrow> sha1_state" where
  "compress h blk =
     (let w = schedule 64 blk;
          s1 = rounds f_ch 0x5A827999 (take 20 w) h;
          s2 = rounds f_parity 0x6ED9EBA1 (take 20 (drop 20 w)) s1;
          s3 = rounds f_maj 0x8F1BBCDC (take 20 (drop 40 w)) s2;
          s4 = rounds f_parity 0xCA62C1D6 (drop 60 w) s3
      in case h of (h0, h1, h2, h3, h4) \<Rightarrow>
           (case s4 of (a, b, c, d, e) \<Rightarrow>
              (add32 h0 a, add32 h1 b, add32 h2 c, add32 h3 d, add32 h4 e)))"

definition sha1_init :: sha1_state where
  "sha1_init = (0x67452301, 0xEFCDAB89, 0x98BADCFE, 0x10325476, 0xC3D2E1F0)"

fun sha1_blocks :: "sha1_state \<Rightarrow> nat list list \<Rightarrow> sha1_state" where
  "sha1_blocks h [] = h"
| "sha1_blocks h (blk # r) = sha1_blocks (compress h blk) r"

definition sha1_words :: "string \<Rightarrow> nat list" where
  "sha1_words s = be_words (sha1_pad (map char_code s))"

definition hex_digit :: "nat \<Rightarrow> char" where
  "hex_digit n = ''0123456789abcdef'' ! (n mod 16)"

definition hex32 :: "nat \<Rightarrow> string" where
  "hex32 w = [hex_digit (w div 2 ^ 28), hex_digit (w div 2 ^ 24), hex_digit (w div 2 ^ 20),
              hex_digit (w div 2 ^ 16), hex_digit (w div 2 ^ 12), hex_digit (w div 2 ^ 8),
              hex_digit (w div 2 ^ 4), hex_digit w]"

fun hex_state :: "sha1_state \<Rightarrow> string" where
  "hex_state (h0, h1, h2, h3, h4) = hex32 h0 @ hex32 h1 @ hex32 h2 @ hex32 h3 @ hex32 h4"

definition sha1_hexdigest :: "string \<Rightarrow> string" where
  "sha1_hexdigest s = hex_state (sha1_blocks sha1_init (blocks (sha1_words s)))"

section \<open>The payment ledger (\<open>payments.py\<close> and the copy in \<open>kling_bot.py\<close>)\<close>

text \<open>
  The table \<open>payments\<close> is a map from \<open>user_id\<close> to a row with the columns of the
  \<open>CREATE TABLE\<close> statement; \<open>NULL\<close> is \<open>None\<close>. A statement reads or writes the map.
  \<open>sqlite3\<close> binds a Python integer to an SQL parameter only when it fits SQLite's
  signed 64-bit INTEGER and raises OverflowError otherwise; the \<open>with\<close> block then
  rolls back, so nothing is stored. Other failures of the storage engine are outside
  the model. \<open>now_iso\<close> stands for \<open>datetime.utcnow().isoformat()\<close> and \<open>now_sql\<close> for
  SQLite's \<open>datetime('now')\<close>, which fills \<open>created_at\<close> and \<open>updated_at\<close> on insert
  and which the trigger \<open>trg_payments_updated_at\<close> writes to \<open>updated_at\<close> after every
  update.
\<close>

record payment_row =
  username :: "string option"
  paid_generations :: int
  last_payment_at :: "string option"
  total_spent_cents :: int
  created_at :: string
  updated_at :: string

type_synonym payments_db = "int \<Rightarrow> payment_row option"

definition sqlite_int :: "int \<Rightarrow> bool" where
  "sqlite_int n = (- 9223372036854775808 \<le> n \<and> n \<le> 9223372036854775807)"

definition get_user_balance :: "payments_db \<Rightarrow> int \<Rightarrow> exn + int" where
  "get_user_balance db user_id =
     (if \<not> sqlite_int user_id then Inl OverflowError
      else Inr (case db user_id of Some row \<Rightarrow> paid_generations row | None \<Rightarrow> 0))"

text \<open>\<open>COALESCE(?, username)\<close>.\<close>

definition coalesce :: "string option \<Rightarrow> string option \<Rightarrow> string option" where
  "coalesce a b = (case a of Some v \<Rightarrow> Some v | None \<Rightarrow> b)"

text \<open>
  \<open>payments.increment_user_balance\<close>: what the call returns or raises, and the table
  afterwards. The SELECT binds \<open>user_id\<close>; the UPDATE or INSERT binds \<open>new_val\<close> too.
\<close>

definition increment_user_balance ::
  "string \<Rightarrow> string \<Rightarrow> payments_db \<Rightarrow> int \<Rightarrow> int \<Rightarrow> string option \<Rightarrow> (exn + int) \<times> payments_db" where
  "increment_user_balance now_iso now_sql db user_id delta uname =
     (if delta = 0 then (get_user_balance db user_id, db)
      else if \<not> sqlite_int user_id then (Inl OverflowError, db)
      else
        let row = db user_id;
            current = (case row of Some r \<Rightarrow> paid_generations r | None \<Rightarrow> 0);
            new_val = max 0 (current + delta)
        in if \<not> sqlite_int new_val then (Inl OverflowError, db)
           else (case row of
              Some r \<Rightarrow>
                (Inr new_val,
                 db(user_id \<mapsto> r\<lparr>paid_generations := new_val,
                                 last_payment_at := (if delta > 0 then Some now_iso else last_payment_at r),
                                 username := coalesce uname (username r),
                                 updated_at := now_sql\<rparr>))
            | None \<Rightarrow>
                (Inr new_val,
                 db(user_id \<mapsto> \<lparr>username = uname, paid_generations = new_val,
                                 last_payment_at = (if delta > 0 then Some now_iso else None),
                                 total_spent_cents = 0, created_at = now_sql, updated_at = now_sql\<rparr>))))"

text \<open>\<open>kling_bot.increment_user_balance\<close>: the same without the \<open>username\<close> column.\<close>

definition bot_increment_user_balance ::
  "string \<Rightarrow> string \<Rightarrow> payments_db \<Rightarrow> int \<Rightarrow> int \<Rightarrow> (exn + int) \<times> payments_db" where
  "bot_increment_user_balance now_iso now_sql db user_id delta =
     (if delta = 0 then (get_user_balance db user_id, db)
      else if \<not> sqlite_int user_id then (Inl OverflowError, db)
      else
        let row = db user_id;
            current = (case row of Some r \<Rightarrow> paid_generations r | None \<Rightarrow> 0);
            new_val = max 0 (current + delta)
        in if \<not> sqlite_int new_val then (Inl OverflowError, db)
           else (case row of
              Some r \<Rightarrow>
                (Inr new_val,
                 db(user_id \<mapsto> r\<lparr>paid_generations := new_val,
                                 last_payment_at := (if delta > 0 then Some now_iso else last_payment_at r),
                                 updated_at := now_sql\<rparr>))
            | None \<Rightarrow>
                (Inr new_val,
                 db(user_id \<mapsto> \<lparr>username = None, paid_generations = new_val,
                                 last_payment_at = (if delta > 0 then Some now_iso else None),
                                 total_spent_cents = 0, created_at = now_sql, updated_at = now_sql\<rparr>))))"

section \<open>The payment verifier\<close>

text \<open>
  \<open>on_yoomoney_notification\<close> (\<open>kling_bot.py\<close>) and \<open>yoomoney_webhook\<close>
  (\<open>webhook_handler.py\<close>) hold the same lines for the key map, the signature string,
  the received hash and the label; each is modelled once and used by both. \<open>cfg_secret\<close>
  is the configuration value \<open>YOOMONEY_SECRET\<close> (the empty string when not set).
\<close>

definition key_map :: py_dict where
  "key_map =
     [(''notificationtype'', ''notification_type''),
      (''notification_type'', ''notification_type''),
      (''operationid'', ''operation_id''),
      (''operation_id'', ''operation_id''),
      (''amount'', ''amount''),
      (''currency'', ''currency''),
      (''datetime'', ''datetime''),
      (''sender'', ''sender''),
      (''codepro'', ''codepro''),
      (''label'', ''label''),
      (''sha1-hash'', ''sha1_hash''),
      (''sha1_hash'', ''sha1_hash''),
      (''md5'', ''md5''),
      (''notification_secret'', ''notification_secret''),
      (''secret'', ''secret'')]"

text \<open>\<open>key_map.get(k.lower(), k.lower())\<close>.\<close>

definition canonical_key :: "string \<Rightarrow> string" where
  "canonical_key k = dict_get key_map (py_lower k) (py_lower k)"

text \<open>\<open>for k, v in raw.items(): params[canonical_key k] = v\<close>.\<close>

fun normalize_items :: "py_dict \<Rightarrow> py_dict \<Rightarrow> py_dict" where
  "normalize_items [] params = params"
| "normalize_items ((k, v) # r) params = normalize_items r (AList.update (canonical_key k) v params)"

definition ordered_keys :: "string list" where
  "ordered_keys =
     [''notification_type'', ''operation_id'', ''amount'', ''currency'',
      ''datetime'', ''sender'', ''codepro'', ''label'']"

text \<open>\<open>YOOMONEY_SECRET or params.get("secret", "")\<close>.\<close>

definition signing_secret :: "string \<Rightarrow> py_dict \<Rightarrow> string" where
  "signing_secret cfg_secret params =
     (if cfg_secret \<noteq> [] then cfg_secret else dict_get params ''secret'' [])"

definition sign_string :: "string \<Rightarrow> py_dict \<Rightarrow> string" where
  "sign_string cfg_secret params =
     py_join ''&'' (map (\<lambda>k. dict_get params k []) ordered_keys @ [signing_secret cfg_secret params])"

text \<open>
  \<open>params.get("sha1_hash") or params.get("md5") or params.get("notification_secret") or ""\<close>.
\<close>

definition received_hash :: "py_dict \<Rightarrow> string" where
  "received_hash params =
     (case py_or (py_or (py_or (map_of params ''sha1_hash'') (map_of params ''md5''))
                        (map_of params ''notification_secret'')) (Some [])
      of Some h \<Rightarrow> h | None \<Rightarrow> [])"

definition digest_matches :: "string \<Rightarrow> py_dict \<Rightarrow> bool" where
  "digest_matches cfg_secret params =
     (py_lower (received_hash params) = py_lower (sha1_hexdigest (sign_string cfg_secret params)))"

definition bot_is_valid :: "string \<Rightarrow> py_dict \<Rightarrow> bool" where
  "bot_is_valid cfg_secret params =
     (digest_matches cfg_secret params \<and> py_lower (dict_get params ''codepro'' ''false'') = ''false'')"

definition webhook_is_valid :: "string \<Rightarrow> py_dict \<Rightarrow> bool" where
  "webhook_is_valid cfg_secret params =
     (digest_matches cfg_secret params
      \<and> py_lower (dict_get params ''codepro'' ''false'') = ''false''
      \<and> map_of params ''currency'' = Some ''643'')"

subsection \<open>The user id in the label\<close>

text \<open>
  \<open>label.startswith("user_id:") and label.split(":", 1)[1].isdigit()\<close>. A label that
  starts with the prefix contains a colon, so the element \<open>[1]\<close> exists.
\<close>

definition has_user_id_prefix :: "string \<Rightarrow> bool" where
  "has_user_id_prefix label =
     (py_startswith ''user_id:'' label
      \<and> (case split1_snd CHR '':'' label of Some r \<Rightarrow> py_isdigit r | None \<Rightarrow> False))"

definition after_colon :: "string \<Rightarrow> string" where
  "after_colon label = (case split1_snd CHR '':'' label of Some r \<Rightarrow> r | None \<Rightarrow> [])"

text \<open>\<open>"".join(ch for ch in label if ch.isdigit())\<close>.\<close>

definition digits_of :: "string \<Rightarrow> string" where
  "digits_of label = concat (map snd (filter (\<lambda>c. is_digit_cp (fst c)) (utf8_chars label)))"

text \<open>\<open>int(s)\<close> where a ValueError is not caught.\<close>

definition int_or_raise :: "string \<Rightarrow> exn + int option" where
  "int_or_raise s = (case py_int s of Some n \<Rightarrow> Inr (Some n) | None \<Rightarrow> Inl ValueError)"

text \<open>
  \<open>kling_bot.py\<close>: the \<open>if/elif\<close> first, and the fallback when the id is still \<open>None\<close>;
  only the fallback catches ValueError. The result is the user id, \<open>None\<close> when there
  is none, or the exception that leaves the block.
\<close>

definition bot_resolve_user :: "string \<Rightarrow> exn + int option" where
  "bot_resolve_user label =
     (case (if py_isdigit label then int_or_raise label
            else if has_user_id_prefix label then int_or_raise (after_colon label)
            else Inr None)
      of Inl e \<Rightarrow> Inl e
       | Inr (Some u) \<Rightarrow> Inr (Some u)
       | Inr None \<Rightarrow>
           (let digits = digits_of label
            in if digits \<noteq> [] then Inr (py_int digits) else Inr None))"

text \<open>\<open>webhook_handler.py\<close>: the fallback is the \<open>else\<close> branch, without a \<open>try\<close>.\<close>

definition webhook_resolve_user :: "string \<Rightarrow> exn + int option" where
  "webhook_resolve_user label =
     (if py_isdigit label then int_or_raise label
      else if has_user_id_prefix label then int_or_raise (after_colon label)
      else (let digits = digits_of label
            in if digits \<noteq> [] then int_or_raise digits else Inr None))"

subsection \<open>Parsing the pasted notification (\<open>kling_bot.py\<close>)\<close>

definition LF :: char where
  "LF = CHR 0x0A"

definition CR :: char where
  "CR = CHR 0x0D"

text \<open>\<open>[ln for ln in body.replace("\r", "").split("\n") if ln.strip()]\<close>.\<close>

definition body_lines :: "string \<Rightarrow> string list" where
  "body_lines body =
     filter (\<lambda>ln. py_strip ln \<noteq> []) (py_split LF (filter (\<lambda>c. c \<noteq> CR) body))"

text \<open>The header line is dropped when it holds neither \<open>=\<close> nor \<open>&\<close>.\<close>

definition drop_header :: "string list \<Rightarrow> string list" where
  "drop_header lines =
     (case lines of
        [] \<Rightarrow> []
      | l # r \<Rightarrow> if \<not> (CHR ''='' \<in> set l \<or> CHR ''&'' \<in> set l) then r else lines)"

text \<open>
  The loop over \<open>content.replace("\n", "&").split("&")\<close>; \<open>k, v = part.split("=", 1)\<close>
  has two elements because the part holds an \<open>=\<close>.
\<close>

fun parse_parts :: "string list \<Rightarrow> py_dict \<Rightarrow> py_dict" where
  "parse_parts [] raw = raw"
| "parse_parts (part # r) raw =
     (if part = [] \<or> CHR ''='' \<notin> set part then parse_parts r raw
      else (case split1_snd CHR ''='' part of
              Some v \<Rightarrow>
                parse_parts r (AList.update (py_strip (split1_fst CHR ''='' part)) (py_strip v) raw)
            | None \<Rightarrow> parse_parts r raw))"

definition parse_notification :: "string \<Rightarrow> py_dict" where
  "parse_notification body =
     (let content = py_join [LF] (drop_header (body_lines body));
          raw = parse_parts (py_split CHR ''&'' (map (\<lambda>c. if c = LF then CHR ''&'' else c) content)) []
      in normalize_items raw [])"

subsection \<open>The two handlers\<close>

datatype bot_reply =
    InvalidNotification
  | UnresolvedUser
  | PaymentConfirmed int int
  | ProcessingError exn

text \<open>
  \<open>on_yoomoney_notification\<close>: the reply the handler sends to the chat and the ledger
  afterwards. An exception inside the \<open>try\<close> block is answered with the error reply.
\<close>

definition on_yoomoney_notification ::
  "string \<Rightarrow> string \<Rightarrow> string \<Rightarrow> string \<Rightarrow> payments_db \<Rightarrow> bot_reply \<times> payments_db" where
  "on_yoomoney_notification cfg_secret now_iso now_sql body db =
     (let params = parse_notification body
      in if \<not> bot_is_valid cfg_secret params then (InvalidNotification, db)
         else (case bot_resolve_user (dict_get params ''label'' []) of
                 Inl e \<Rightarrow> (ProcessingError e, db)
               | Inr None \<Rightarrow> (UnresolvedUser, db)
               | Inr (Some user_id) \<Rightarrow>
                   (case bot_increment_user_balance now_iso now_sql db user_id 1 of
                      (Inl e, db') \<Rightarrow> (ProcessingError e, db')
                    | (Inr new_balance, db') \<Rightarrow> (PaymentConfirmed user_id new_balance, db'))))"

datatype http_result =
    Http400_InvalidSignature
  | Http400_InvalidUser
  | Http500_Unhandled
  | Http500_InternalError
  | Http200_Ok

text \<open>
  \<open>yoomoney_webhook\<close>: \<open>request_params\<close> is the dictionary read from the request, with
  every value already a string; \<open>send_ok\<close> tells whether \<open>bot.send_message\<close> returns or
  raises (the balance is committed before the message is sent). A ValueError of
  \<open>int\<close> is not caught and ends the request; an exception of the ledger is answered
  with status 500.
\<close>

definition yoomoney_webhook ::
  "string \<Rightarrow> string \<Rightarrow> string \<Rightarrow> bool \<Rightarrow> py_dict \<Rightarrow> payments_db \<Rightarrow> http_result \<times> payments_db" where
  "yoomoney_webhook cfg_secret now_iso now_sql send_ok request_params db =
     (let normalized_params = normalize_items request_params []
      in if \<not> webhook_is_valid cfg_secret normalized_params then (Http400_InvalidSignature, db)
         else (case webhook_resolve_user (dict_get normalized_params ''label'' []) of
                 Inl e \<Rightarrow> (Http500_Unhandled, db)
               | Inr None \<Rightarrow> (Http400_InvalidUser, db)
               | Inr (Some user_id) \<Rightarrow>
                   (case increment_user_balance now_iso now_sql db user_id 1 None of
                      (Inl e, db') \<Rightarrow> (Http500_InternalError, db')
                    | (Inr new_balance, db') \<Rightarrow>
                        (if send_ok then Http200_Ok else Http500_InternalError, db'))))"

section \<open>Sessions (\<open>kling_bot.py\<close>)\<close>

text \<open>
  \<open>SESSIONS\<close> maps a user id to a \<open>Session\<close> object with three optional fields.
  \<open>Session()\<close> is \<open>fresh_session\<close>. A handler that assigns \<open>SESSIONS[user_id] = Session()\<close>
  replaces the entry; \<open>on_image\<close> mutates the object it finds in the dictionary.
\<close>

record session =
  start_b64 :: "string option"
  end_b64 :: "string option"
  workdir :: "string option"

definition fresh_session :: session where
  "fresh_session = \<lparr>start_b64 = None, end_b64 = None, workdir = None\<rparr>"

type_synonym sessions = "int \<Rightarrow> session option"

definition cmd_start :: "sessions \<Rightarrow> int \<Rightarrow> sessions" where
  "cmd_start S user_id = S(user_id \<mapsto> fresh_session)"

definition cmd_cancel :: "sessions \<Rightarrow> int \<Rightarrow> sessions" where
  "cmd_cancel S user_id = S(user_id \<mapsto> fresh_session)"

definition start_flow_by_text :: "sessions \<Rightarrow> int \<Rightarrow> sessions" where
  "start_flow_by_text S user_id = S(user_id \<mapsto> fresh_session)"

text \<open>
  What \<open>on_image\<close> meets outside the session: the kind of the message (a photo, a
  document whose MIME type starts with \<open>image/\<close>, anything else), and for each step that
  can raise whether it returns. \<open>download\<close> is \<open>bytes_to_b64\<close> of the bytes read, or
  \<open>None\<close> when the download raises; \<open>new_workdir\<close> is the fresh directory name;
  \<open>notice_ok\<close> stands for the first \<open>message.answer\<close> of the path taken, and
  \<open>error_answer_ok\<close> for the answer sent in the \<open>except\<close> branch, which comes
  before the reset there. The answer sent after the job was started and the session
  reset cannot change the dictionary any more and is left out.
\<close>

datatype media = Photo | ImageDocument | OtherContent

record intake =
  content :: media
  get_file_ok :: bool
  download :: "string option"
  new_workdir :: string
  mkdir_ok :: bool
  write_ok :: bool
  notice_ok :: bool
  error_answer_ok :: bool

text \<open>
  The \<open>except\<close> branch: \<open>SESSIONS[user_id] = Session()\<close> once the error was
  reported; when reporting raises, the dictionary keeps the object as it is.
\<close>

definition recover :: "sessions \<Rightarrow> int \<Rightarrow> session \<Rightarrow> intake \<Rightarrow> sessions" where
  "recover S user_id obj env =
     (if error_answer_ok env then S(user_id \<mapsto> fresh_session) else S(user_id \<mapsto> obj))"

text \<open>
  The result of \<open>on_image\<close>: the dictionary afterwards, the state in which the handler
  leaves the session object it worked on, and the session handed to the background task
  \<open>_poll_and_send\<close> when one is started.
\<close>

definition on_image :: "sessions \<Rightarrow> int \<Rightarrow> intake \<Rightarrow> sessions \<times> session \<times> session option" where
  "on_image S user_id env =
     (let session = (case S user_id of Some s \<Rightarrow> s | None \<Rightarrow> fresh_session)
      in if content env = OtherContent then
           (if notice_ok env then (S(user_id \<mapsto> session), session, None)
            else (recover S user_id session env, session, None))
         else if \<not> get_file_ok env then (recover S user_id session env, session, None)
         else (case download env of
                 None \<Rightarrow> (recover S user_id session env, session, None)
               | Some data \<Rightarrow>
                   (let s1 = (if workdir session = None
                              then session\<lparr>workdir := Some (new_workdir env)\<rparr> else session)
                    in if workdir session = None \<and> \<not> mkdir_ok env
                       then (recover S user_id s1 env, s1, None)
                       else if \<not> truthy (start_b64 s1) then
                         (if \<not> write_ok env then (recover S user_id s1 env, s1, None)
                          else (let s2 = s1\<lparr>start_b64 := Some data\<rparr>
                                in if notice_ok env then (S(user_id \<mapsto> s2), s2, None)
                                   else (recover S user_id s2 env, s2, None)))
                       else
                         (if \<not> write_ok env then (recover S user_id s1 env, s1, None)
                          else (let s2 = s1\<lparr>end_b64 := Some data\<rparr>
                                in if notice_ok env
                                   then (S(user_id \<mapsto> fresh_session), s2, Some s2)
                                   else (recover S user_id s2 env, s2, None))))))"

text \<open>
  The dictionaries the bot can hold: it starts empty, and only the four handlers
  above assign to it.
\<close>

inductive reachable :: "sessions \<Rightarrow> bool" where
  initial: "reachable Map.empty"
| start: "reachable S \<Longrightarrow> reachable (cmd_start S user_id)"
| cancel: "reachable S \<Longrightarrow> reachable (cmd_cancel S user_id)"
| start_flow: "reachable S \<Longrightarrow> reachable (start_flow_by_text S user_id)"
| image: "reachable S \<Longrightarrow> reachable (fst (on_image S user_id env))"

section \<open>Polling the generation job (\<open>kling_bot.py\<close>)\<close>

text \<open>
  The clock \<open>time.time()\<close> is read in whole seconds. A request takes the time the
  environment says, and \<open>time.sleep(n)\<close> takes \<open>n\<close> seconds. The exceptions are the ones
  the code raises or lets through; \<open>OtherError\<close> stands for any other exception (a
  failed request, a missing key of the JSON reply). Message texts are constructors.
\<close>

text \<open>
  The reply to the POST that creates the task: the request raises, or the JSON holds
  \<open>code\<close>, \<open>message\<close> and \<open>data.task_id\<close> (each possibly absent).
\<close>

datatype submit_reply =
    SubmitRaises
  | SubmitResponse "int option" "string option" "string option"

text \<open>
  The reply to one status GET: a read timeout, another exception, or the JSON with
  \<open>code\<close>, \<open>message\<close>, \<open>data.task_status\<close>, the URL of the first video and
  \<open>data.task_status_msg\<close>.
\<close>

datatype poll_reply =
    ReadTimeout
  | PollRaises
  | PollResponse "int option" "string option" string "string option" "string option"

datatype step = Return string | Raise exn | Wait

text \<open>The body of the \<open>try\<close> in the polling loop of \<open>kling_generate_video\<close>.\<close>

definition process_reply :: "poll_reply \<Rightarrow> step" where
  "process_reply r =
     (case r of
        ReadTimeout \<Rightarrow> Wait
      | PollRaises \<Rightarrow> Raise OtherError
      | PollResponse code msg status url reason \<Rightarrow>
          if code \<noteq> Some 0 then Raise (StatusError msg)
          else if status = ''succeed'' then (case url of Some u \<Rightarrow> Return u | None \<Rightarrow> Raise OtherError)
          else if status = ''failed'' then Raise (GenerationFailed reason)
          else Wait)"

definition MAX_WAIT :: int where
  "MAX_WAIT = 20 * 60"

text \<open>
  The \<open>while True\<close> loop: \<open>polls k\<close> is the duration and the reply of the \<open>k\<close>-th GET.
  The loop may run forever in the model (an interval of 0 and requests that take no
  time), so the result is an option and \<open>None\<close> means that it does not return.
\<close>

partial_function (option) poll_loop ::
  "(nat \<Rightarrow> nat \<times> poll_reply) \<Rightarrow> nat \<Rightarrow> int \<Rightarrow> int \<Rightarrow> int \<Rightarrow> (exn + string) option" where
  "poll_loop polls k start_time now poll_interval =
     (if now - start_time > MAX_WAIT then Some (Inl TimeoutError)
      else (case process_reply (snd (polls k)) of
              Return url \<Rightarrow> Some (Inr url)
            | Raise e \<Rightarrow> Some (Inl e)
            | Wait \<Rightarrow>
                poll_loop polls (Suc k) start_time (now + int (fst (polls k)) + poll_interval)
                  (if poll_interval < 15 then min (poll_interval + 3) 15 else poll_interval)))"

record job_env =
  submit :: submit_reply
  submitted_at :: int
  polls :: "nat \<Rightarrow> nat \<times> poll_reply"

text \<open>
  \<open>kling_generate_video\<close>: \<open>ak\<close> and \<open>sk\<close> are the configured keys (empty when not
  set); \<open>submitted_at\<close> is the clock when \<open>start_time\<close> is read.
\<close>

definition kling_generate_video :: "string \<Rightarrow> string \<Rightarrow> job_env \<Rightarrow> (exn + string) option" where
  "kling_generate_video ak sk env =
     (if ak = [] \<or> sk = [] then Some (Inl ValueError)
      else (case submit env of
              SubmitRaises \<Rightarrow> Some (Inl OtherError)
            | SubmitResponse code msg task_id \<Rightarrow>
                if code \<noteq> Some 0 then Some (Inl (ApiError msg))
                else (case task_id of
                        None \<Rightarrow> Some (Inl OtherError)
                      | Some t \<Rightarrow> poll_loop (polls env) 0 (submitted_at env) (submitted_at env) 5)))"

subsection \<open>The background task \<open>_poll_and_send\<close>\<close>

datatype progress = WaitOneMoreMinute | StillChecking

datatype event =
    Sleep nat
  | Notify progress
  | SendVideo string
  | SendTimeoutMessage

text \<open>After the loop: \<open>if video_url: ... else: ...\<close>.\<close>

definition finish :: "string option \<Rightarrow> event list" where
  "finish video_url =
     (case video_url of
        Some url \<Rightarrow> if url \<noteq> [] then [SendVideo url] else [SendTimeoutMessage]
      | None \<Rightarrow> [SendTimeoutMessage])"

text \<open>
  \<open>min(next_delay + 30 if next_delay < 60 else min(next_delay + 15, 90), 90)\<close>.
\<close>

definition next_delay_after :: "nat \<Rightarrow> nat" where
  "next_delay_after next_delay =
     min (if next_delay < 60 then next_delay + 30 else min (next_delay + 15) 90) 90"

text \<open>
  The loop of \<open>_poll_and_send\<close>, as the list of what the task does. Every pass calls
  \<open>kling_generate_video\<close> once; the pass with \<open>notify_count = n\<close> is the call number
  \<open>n\<close>, and \<open>envs n\<close> is what that call meets.
\<close>

function poll_and_send_loop ::
  "string \<Rightarrow> string \<Rightarrow> (nat \<Rightarrow> job_env) \<Rightarrow> nat \<Rightarrow> nat \<Rightarrow> event list option" where
  "poll_and_send_loop ak sk envs notify_count next_delay =
     (case kling_generate_video ak sk (envs notify_count) of
        None \<Rightarrow> None
      | Some (Inr url) \<Rightarrow> Some (Sleep next_delay # finish (Some url))
      | Some (Inl e) \<Rightarrow>
          if e = TimeoutError then Some (Sleep next_delay # finish None)
          else if notify_count + 1 \<ge> 20 then
            Some ([Sleep next_delay,
                   Notify (if notify_count = 0 then WaitOneMoreMinute else StillChecking)]
                  @ finish None)
          else
            map_option
              (\<lambda>rest. Sleep next_delay
                       # Notify (if notify_count = 0 then WaitOneMoreMinute else StillChecking)
                       # rest)
              (poll_and_send_loop ak sk envs (notify_count + 1) (next_delay_after next_delay)))"
  by pat_completeness auto
termination
  by (relation "measure (\<lambda>(ak, sk, envs, notify_count, next_delay). 20 - notify_count)") auto

definition poll_and_send :: "string \<Rightarrow> string \<Rightarrow> (nat \<Rightarrow> job_env) \<Rightarrow> event list option" where
  "poll_and_send ak sk envs = poll_and_send_loop ak sk envs 0 30"

section \<open>The label resolution as the specification words it\<close>


section \<open>Example notifications\<close>

text \<open>
  Three notifications signed with the secret \<open>s3cr3t\<close>, as the chat handler receives
  them (one \<open>key=value\<close> pair per line), and variants of them. \<open>body_A\<close> carries
  \<open>codepro=FALSE\<close>, \<open>body_B\<close> is a plain payment for user 42, and the label of
  \<open>body_C\<close> holds no digit.
\<close>

definition sign_A :: string where
  "sign_A = ''p2p-incoming&7&50.00&643&&41001&FALSE&user_id:42&s3cr3t''"

definition sign_B :: string where
  "sign_B = ''p2p-incoming&7&50.00&643&&41001&false&user_id:42&s3cr3t''"


definition notification_body :: "string \<Rightarrow> string \<Rightarrow> string \<Rightarrow> string" where
  "notification_body codepro label hash =
     ''notificationtype=p2p-incoming'' @ [LF] @ ''operationid=7'' @ [LF]
     @ ''amount=50.00'' @ [LF] @ ''currency=643'' @ [LF] @ ''sender=41001'' @ [LF]
     @ ''codepro='' @ codepro @ [LF] @ ''label='' @ label @ [LF] @ ''sha1-hash='' @ hash"

definition body_A :: string where
  "body_A = notification_body ''FALSE'' ''user_id:42'' ''1299617754b1d1e4f30dc87f5228c804011dbb76''"

definition body_B :: string where
  "body_B = notification_body ''false'' ''user_id:42'' ''547e86a422c6cc376bc3afdd471d98c948f57277''"




text \<open>A notification protected by a code, and one without any hash field.\<close>

definition body_codepro :: string where
  "body_codepro = notification_body ''true'' ''user_id:42'' ''547e86a422c6cc376bc3afdd471d98c948f57277''"

definition body_unsigned :: string where
  "body_unsigned = ''amount=50.00'' @ [LF] @ ''codepro=false'' @ [LF] @ ''label=42''"

text \<open>The fields of \<open>body_B\<close> as the webhook reads them from a form.\<close>

definition request_B :: py_dict where
  "request_B =
     [(''notification_type'', ''p2p-incoming''), (''operation_id'', ''7''), (''amount'', ''50.00''),
      (''currency'', ''643''), (''sender'', ''41001''), (''codepro'', ''false''),
      (''label'', ''user_id:42''), (''sha1_hash'', ''547e86a422c6cc376bc3afdd471d98c948f57277'')]"

definition parsed :: "string \<Rightarrow> string \<Rightarrow> string \<Rightarrow> py_dict" where
  "parsed codepro label hash =
     [(''notification_type'', ''p2p-incoming''), (''operation_id'', ''7''), (''amount'', ''50.00''),
      (''currency'', ''643''), (''sender'', ''41001''), (''codepro'', codepro),
      (''label'', label), (''sha1_hash'', hash)]"

definition empty_db :: payments_db where
  "empty_db = Map.empty"



section \<open>Facts about the digest and the string functions\<close>

lemma length_hex32: "length (hex32 w) = 8"
  by (simp add: hex32_def)

lemma length_sha1_hexdigest: "length (sha1_hexdigest s) = 40"
proof -
  obtain h0 h1 h2 h3 h4 where "sha1_blocks sha1_init (blocks (sha1_words s)) = (h0, h1, h2, h3, h4)"
    by (cases "sha1_blocks sha1_init (blocks (sha1_words s))" rule: prod_cases5) blast
  then show ?thesis
    by (simp add: sha1_hexdigest_def length_hex32)
qed

lemma sha1_hexdigest_not_empty: "sha1_hexdigest s \<noteq> []"
  using length_sha1_hexdigest [of s] by auto

lemma lower_hex_digit: "lower_char (hex_digit n) = hex_digit n"
proof -
  have "hex_digit n \<in> set ''0123456789abcdef''"
    unfolding hex_digit_def by (rule nth_mem) simp
  moreover have "\<forall>c \<in> set ''0123456789abcdef''. lower_char c = c"
    by (simp add: lower_char_def)
  ultimately show ?thesis by blast
qed

lemma lower_hex32: "py_lower (hex32 w) = hex32 w"
  by (simp add: py_lower_def hex32_def lower_hex_digit)

lemma lower_sha1_hexdigest: "py_lower (sha1_hexdigest s) = sha1_hexdigest s"
proof -
  obtain h0 h1 h2 h3 h4 where "sha1_blocks sha1_init (blocks (sha1_words s)) = (h0, h1, h2, h3, h4)"
    by (cases "sha1_blocks sha1_init (blocks (sha1_words s))" rule: prod_cases5) blast
  moreover have "\<And>a b. py_lower (a @ b) = py_lower a @ py_lower b"
    by (simp add: py_lower_def)
  ultimately show ?thesis
    by (simp add: sha1_hexdigest_def lower_hex32)
qed

lemma received_hash_cases:
  "received_hash p =
     (if truthy (map_of p ''sha1_hash'') then the (map_of p ''sha1_hash'')
      else if truthy (map_of p ''md5'') then the (map_of p ''md5'')
      else if truthy (map_of p ''notification_secret'') then the (map_of p ''notification_secret'')
      else [])"
  by (auto simp: received_hash_def py_or_def truthy_def split: option.splits)

lemma no_hash_no_match:
  assumes "\<not> truthy (map_of p ''sha1_hash'')" "\<not> truthy (map_of p ''md5'')"
    "\<not> truthy (map_of p ''notification_secret'')"
  shows "\<not> digest_matches cfg_secret p"
proof -
  have "received_hash p = []"
    using assms by (simp add: received_hash_cases)
  then show ?thesis
    using sha1_hexdigest_not_empty [of "sign_string cfg_secret p"]
    by (simp add: digest_matches_def lower_sha1_hexdigest py_lower_def)
qed

subsection \<open>Labels and their digits\<close>

















subsection \<open>The handlers, case by case\<close>

lemma bot_rejects_iff:
  "(fst (on_yoomoney_notification cfg_secret now_iso now_sql body db) = InvalidNotification)
     = (\<not> bot_is_valid cfg_secret (parse_notification body))"
  by (simp add: on_yoomoney_notification_def Let_def split: sum.splits option.splits prod.splits)

lemma webhook_rejects_iff:
  "(fst (yoomoney_webhook cfg_secret now_iso now_sql send_ok request_params db)
      = Http400_InvalidSignature)
     = (\<not> webhook_is_valid cfg_secret (normalize_items request_params []))"
  by (simp add: yoomoney_webhook_def Let_def split: sum.splits option.splits prod.splits)

lemma bot_rejected_unchanged:
  "\<not> bot_is_valid cfg_secret (parse_notification body) \<Longrightarrow>
     on_yoomoney_notification cfg_secret now_iso now_sql body db = (InvalidNotification, db)"
  by (simp add: on_yoomoney_notification_def)

lemma webhook_rejected_unchanged:
  "\<not> webhook_is_valid cfg_secret (normalize_items request_params []) \<Longrightarrow>
     yoomoney_webhook cfg_secret now_iso now_sql send_ok request_params db
       = (Http400_InvalidSignature, db)"
  by (simp add: yoomoney_webhook_def)

lemma bot_not_resolved:
  assumes "bot_is_valid cfg_secret (parse_notification body)"
    and "bot_resolve_user (dict_get (parse_notification body) ''label'' []) = r"
    and "\<forall>u. r \<noteq> Inr (Some u)"
  shows "on_yoomoney_notification cfg_secret now_iso now_sql body db
           = (case r of Inl e \<Rightarrow> ProcessingError e | Inr _ \<Rightarrow> UnresolvedUser, db)"
  using assms by (auto simp: on_yoomoney_notification_def split: sum.splits option.splits)

lemma webhook_not_resolved:
  assumes "webhook_is_valid cfg_secret (normalize_items request_params [])"
    and "webhook_resolve_user (dict_get (normalize_items request_params []) ''label'' []) = r"
    and "\<forall>u. r \<noteq> Inr (Some u)"
  shows "yoomoney_webhook cfg_secret now_iso now_sql send_ok request_params db
           = (case r of Inl e \<Rightarrow> Http500_Unhandled | Inr _ \<Rightarrow> Http400_InvalidUser, db)"
  using assms by (auto simp: yoomoney_webhook_def split: sum.splits option.splits)

subsection \<open>Changing the hash field\<close>



lemma lower_update: "py_lower (h[i := c]) = (py_lower h)[i := lower_char c]"
  by (simp add: py_lower_def map_update)


subsection \<open>Evaluating the examples\<close>

lemma schedule_numeral:
  "schedule (numeral k) w =
     schedule (pred_numeral k) (w @ [rotl32 1 (w ! (length w - 3) XOR w ! (length w - 8)
                               XOR w ! (length w - 14) XOR w ! (length w - 16))])"
  by (simp add: numeral_eq_Suc)

lemma replicate_numeral: "replicate (numeral k) x = x # replicate (pred_numeral k) x"
  by (simp add: numeral_eq_Suc)

lemmas sha1_words_eval = sha1_words_def sha1_pad_def be64_def replicate_numeral char_code_def

lemmas compress_eval = schedule_numeral rotl32_def add32_def compress_def sha1_init_def
  f_ch_def f_parity_def f_maj_def

lemmas hexdigest_eval = sha1_hexdigest_def hex32_def hex_digit_def

lemmas parse_eval = notification_body_def parse_notification_def body_lines_def drop_header_def
  py_strip_def is_space_cp_def is_cont_def char_code_def LF_def CR_def split1_fst_def
  split1_snd_def canonical_key_def key_map_def dict_get_def py_lower_def lower_char_def

lemmas verify_eval = sign_string_def ordered_keys_def signing_secret_def dict_get_def
  received_hash_def py_or_def truthy_def py_lower_def lower_char_def

lemmas digit_eval = py_isdigit_def py_int_def digits_of_def int_or_raise_def is_digit_cp_def
  decimal_value_def decimal_zeros_def other_digit_ranges_def is_cont_def char_code_def

lemmas resolve_eval = bot_resolve_user_def webhook_resolve_user_def has_user_id_prefix_def
  after_colon_def split1_snd_def digit_eval

text \<open>The standard test vector of FIPS 180.\<close>

lemma sha1_words_abc: "sha1_words ''abc'' = [1633837952, 0, 0, 0, 0, 0, 0, 0, 0, 0, 0, 0, 0, 0, 0, 24]"
  by (simp add: sha1_words_eval)

lemma compress_abc:
  "compress sha1_init [1633837952, 0, 0, 0, 0, 0, 0, 0, 0, 0, 0, 0, 0, 0, 0, 24]
   = (2845392438, 1191608682, 3124634993, 2018558572, 2630932637)"
  by (simp add: compress_eval)

lemma sha1_abc: "sha1_hexdigest ''abc'' = ''a9993e364706816aba3e25717850c26c9cd0d89d''"
  by (simp add: hexdigest_eval sha1_words_abc compress_abc)

lemma words_A:
  "sha1_words sign_A =
     [1882353709, 1768842095, 1835626087, 641148469, 808333360, 641086515, 640037937, 808464678,
      1178684499, 1160148339, 1701994345, 1681536050, 645084003, 1915974784, 0, 440]"
  by (simp add: sign_A_def sha1_words_eval)

lemma compress_A:
  "compress sha1_init
     [1882353709, 1768842095, 1835626087, 641148469, 808333360, 641086515, 640037937, 808464678,
      1178684499, 1160148339, 1701994345, 1681536050, 645084003, 1915974784, 0, 440]
   = (312041847, 1420939748, 4077766783, 1378404356, 18725750)"
  by (simp add: compress_eval)

lemma sha1_A: "sha1_hexdigest sign_A = ''1299617754b1d1e4f30dc87f5228c804011dbb76''"
  by (simp add: hexdigest_eval words_A compress_A)

lemma words_B:
  "sha1_words sign_B =
     [1882353709, 1768842095, 1835626087, 641148469, 808333360, 641086515, 640037937, 808464678,
      1717660787, 1697019251, 1701994345, 1681536050, 645084003, 1915974784, 0, 440]"
  by (simp add: sign_B_def sha1_words_eval)

lemma compress_B:
  "compress sha1_init
     [1882353709, 1768842095, 1835626087, 641148469, 808333360, 641086515, 640037937, 808464678,
      1717660787, 1697019251, 1701994345, 1681536050, 645084003, 1915974784, 0, 440]
   = (1417578148, 583453751, 1807986653, 1193121993, 1224045175)"
  by (simp add: compress_eval)

lemma sha1_B: "sha1_hexdigest sign_B = ''547e86a422c6cc376bc3afdd471d98c948f57277''"
  by (simp add: hexdigest_eval words_B compress_B)




lemma parse_A: "parse_notification body_A = parsed ''FALSE'' ''user_id:42'' ''1299617754b1d1e4f30dc87f5228c804011dbb76''"
  by (simp add: body_A_def parsed_def parse_eval)

lemma parse_B: "parse_notification body_B = parsed ''false'' ''user_id:42'' ''547e86a422c6cc376bc3afdd471d98c948f57277''"
  by (simp add: body_B_def parsed_def parse_eval)




lemma parse_codepro:
  "parse_notification body_codepro = parsed ''true'' ''user_id:42'' ''547e86a422c6cc376bc3afdd471d98c948f57277''"
  by (simp add: body_codepro_def parsed_def parse_eval)

lemma parse_unsigned:
  "parse_notification body_unsigned = [(''amount'', ''50.00''), (''codepro'', ''false''), (''label'', ''42'')]"
  by (simp add: body_unsigned_def parse_eval)

lemma normalize_request_B:
  "normalize_items request_B [] = parsed ''false'' ''user_id:42'' ''547e86a422c6cc376bc3afdd471d98c948f57277''"
  by (simp add: request_B_def parsed_def canonical_key_def key_map_def dict_get_def py_lower_def
      lower_char_def)

lemma sign_string_A: "sign_string ''s3cr3t'' (parsed ''FALSE'' ''user_id:42'' h) = sign_A"
  by (simp add: parsed_def verify_eval sign_A_def)

lemma sign_string_B: "sign_string ''s3cr3t'' (parsed ''false'' ''user_id:42'' h) = sign_B"
  by (simp add: parsed_def verify_eval sign_B_def)


lemma received_hash_parsed: "h \<noteq> [] \<Longrightarrow> received_hash (parsed cp l h) = h"
  by (simp add: parsed_def received_hash_def py_or_def truthy_def)

lemma digest_matches_A:
  "digest_matches ''s3cr3t'' (parsed ''FALSE'' ''user_id:42'' ''1299617754b1d1e4f30dc87f5228c804011dbb76'')"
  unfolding digest_matches_def sign_string_A sha1_A
  by (simp add: received_hash_parsed py_lower_def lower_char_def)

lemma digest_matches_B:
  "digest_matches ''s3cr3t'' (parsed ''false'' ''user_id:42'' ''547e86a422c6cc376bc3afdd471d98c948f57277'')"
  unfolding digest_matches_def sign_string_B sha1_B
  by (simp add: received_hash_parsed py_lower_def lower_char_def)



lemma sqlite_int_small: "sqlite_int 0" "sqlite_int 1" "sqlite_int 7" "sqlite_int 42"
  by (simp_all add: sqlite_int_def)

lemma bot_increment_first:
  "bot_increment_user_balance ''2025-01-01T00:00:00'' ''2025-01-01 00:00:00'' empty_db 42 1
     = (Inr 1, empty_db(42 \<mapsto> \<lparr>username = None, paid_generations = 1,
          last_payment_at = Some ''2025-01-01T00:00:00'', total_spent_cents = 0,
          created_at = ''2025-01-01 00:00:00'', updated_at = ''2025-01-01 00:00:00''\<rparr>))"
  by (simp add: bot_increment_user_balance_def empty_db_def sqlite_int_def)

lemma resolve_user_id_42:
  "bot_resolve_user ''user_id:42'' = Inr (Some 42)"
  "webhook_resolve_user ''user_id:42'' = Inr (Some 42)"
  by (simp_all add: resolve_eval)

section \<open>The balance ledger\<close>

text \<open>
  Claim C3, as amended. For every user id that has a current balance \<open>b\<close> (an id
  within SQLite's signed 64-bit INTEGER range; \<open>b\<close> is 0 when the user has no row)
  and every delta other than zero, positive or negative, for which \<open>max 0 (b + delta)\<close>
  is within that range, \<open>increment_user_balance\<close> returns \<open>max 0 (b + delta)\<close> and
  leaves that value stored, so the stored balance is not negative afterwards; in
  particular a delta of -1000 on a zero balance returns 0. Both copies of the function
  (\<open>payments.py\<close> and \<open>kling_bot.py\<close>) do so.
\<close>

theorem increment_clamps_at_zero:
  assumes "delta \<noteq> 0" and "get_user_balance db user_id = Inr b"
    and "sqlite_int (max 0 (b + delta))"
  shows "fst (increment_user_balance now_iso now_sql db user_id delta uname)
           = Inr (max 0 (b + delta))
     \<and> get_user_balance (snd (increment_user_balance now_iso now_sql db user_id delta uname)) user_id
           = Inr (max 0 (b + delta))
     \<and> fst (bot_increment_user_balance now_iso now_sql db user_id delta)
           = Inr (max 0 (b + delta))
     \<and> get_user_balance (snd (bot_increment_user_balance now_iso now_sql db user_id delta)) user_id
           = Inr (max 0 (b + delta))
     \<and> 0 \<le> max 0 (b + delta)
     \<and> (b = 0 \<longrightarrow>
          fst (increment_user_balance now_iso now_sql db user_id (- 1000) uname) = Inr 0
          \<and> fst (bot_increment_user_balance now_iso now_sql db user_id (- 1000)) = Inr 0)"
proof -
  have u: "sqlite_int user_id"
    and b: "b = (case db user_id of Some r \<Rightarrow> paid_generations r | None \<Rightarrow> 0)"
    using assms(2) by (auto simp: get_user_balance_def split: if_splits)
  have z: "sqlite_int 0"
    by (simp add: sqlite_int_def)
  show ?thesis
    using assms(1,3) u z unfolding b
    by (auto simp: increment_user_balance_def bot_increment_user_balance_def get_user_balance_def
        Let_def split: option.splits)
qed

theorem increment_clamps_at_zero_witness:
  "(- 1000 :: int) \<noteq> 0
   \<and> get_user_balance empty_db 7 = Inr 0
   \<and> sqlite_int (max 0 (0 + - 1000))
   \<and> fst (increment_user_balance ''2025-01-01T00:00:00'' ''2025-01-01 00:00:00'' empty_db 7 (- 1000) None)
       = Inr 0
   \<and> get_user_balance
        (snd (increment_user_balance ''2025-01-01T00:00:00'' ''2025-01-01 00:00:00'' empty_db 7 (- 1000) None)) 7
       = Inr 0
   \<and> fst (bot_increment_user_balance ''2025-01-01T00:00:00'' ''2025-01-01 00:00:00'' empty_db 7 (- 1000))
       = Inr 0"
proof -
  have d: "(- 1000 :: int) \<noteq> 0"
    by simp
  have g: "get_user_balance empty_db 7 = Inr 0"
    by (simp add: get_user_balance_def empty_db_def sqlite_int_def)
  have r: "sqlite_int (max 0 (0 + - 1000))"
    by (simp add: sqlite_int_def)
  show ?thesis
    using d g r increment_clamps_at_zero [OF d g r, of "''2025-01-01T00:00:00''"
        "''2025-01-01 00:00:00''" None]
    by simp
qed

text \<open>
  Claim C3 as stated covers every user id and every integer delta. A delta of \<open>2^63\<close>
  on the zero balance of user 7 gives a value that SQLite's INTEGER cannot hold: the call
  raises OverflowError and stores nothing. So does any call for a user id of \<open>2^63\<close>.
\<close>

theorem increment_clamps_at_zero_counterexample:
  "get_user_balance empty_db 7 = Inr 0
   \<and> increment_user_balance ''2025-01-01T00:00:00'' ''2025-01-01 00:00:00'' empty_db 7
        9223372036854775808 None = (Inl OverflowError, empty_db)
   \<and> bot_increment_user_balance ''2025-01-01T00:00:00'' ''2025-01-01 00:00:00'' empty_db 7
        9223372036854775808 = (Inl OverflowError, empty_db)
   \<and> increment_user_balance ''2025-01-01T00:00:00'' ''2025-01-01 00:00:00'' empty_db
        9223372036854775808 1 None = (Inl OverflowError, empty_db)"
  by (simp add: increment_user_balance_def bot_increment_user_balance_def get_user_balance_def
      empty_db_def sqlite_int_def)

text \<open>
  Claim C9, as amended. With a delta of zero, \<open>increment_user_balance\<close> writes nothing:
  the table, and so every column of the user's row, is the one it was called with. For
  a user id within SQLite's signed 64-bit INTEGER range the call returns the current
  balance, which is 0 when the user has no row.
\<close>

theorem increment_zero_is_read_only:
  "snd (increment_user_balance now_iso now_sql db user_id 0 uname) = db
   \<and> snd (bot_increment_user_balance now_iso now_sql db user_id 0) = db
   \<and> (sqlite_int user_id \<longrightarrow>
        fst (increment_user_balance now_iso now_sql db user_id 0 uname)
          = Inr (case db user_id of Some row \<Rightarrow> paid_generations row | None \<Rightarrow> 0)
        \<and> fst (bot_increment_user_balance now_iso now_sql db user_id 0)
          = Inr (case db user_id of Some row \<Rightarrow> paid_generations row | None \<Rightarrow> 0))"
  by (simp add: increment_user_balance_def bot_increment_user_balance_def get_user_balance_def)

theorem increment_zero_is_read_only_witness:
  "sqlite_int 7
   \<and> increment_user_balance ''2025-01-01T00:00:00'' ''2025-01-01 00:00:00'' empty_db 7 0 None
       = (Inr 0, empty_db)
   \<and> bot_increment_user_balance ''2025-01-01T00:00:00'' ''2025-01-01 00:00:00'' empty_db 7 0
       = (Inr 0, empty_db)"
proof -
  have r: "sqlite_int 7"
    by (simp add: sqlite_int_def)
  have e: "(case empty_db 7 of Some row \<Rightarrow> paid_generations row | None \<Rightarrow> 0) = 0"
    by (simp add: empty_db_def)
  show ?thesis
    using r e increment_zero_is_read_only [of "''2025-01-01T00:00:00''" "''2025-01-01 00:00:00''"
        empty_db 7 None]
    by (simp add: prod_eq_iff)
qed

text \<open>
  Claim C9 as stated has the call return the current balance for every user. For the
  user id \<open>2^63\<close> the SELECT cannot bind the id: the call raises OverflowError and
  returns no balance (it still writes nothing).
\<close>

theorem increment_zero_is_read_only_counterexample:
  "increment_user_balance ''2025-01-01T00:00:00'' ''2025-01-01 00:00:00'' empty_db
        9223372036854775808 0 None = (Inl OverflowError, empty_db)
   \<and> bot_increment_user_balance ''2025-01-01T00:00:00'' ''2025-01-01 00:00:00'' empty_db
        9223372036854775808 0 = (Inl OverflowError, empty_db)"
  by (simp add: increment_user_balance_def bot_increment_user_balance_def get_user_balance_def
      sqlite_int_def)

section \<open>The payment verifier\<close>

text \<open>
  Claim C2. For every parsed notification the signature string is the values of
  \<open>notification_type\<close>, \<open>operation_id\<close>, \<open>amount\<close>, \<open>currency\<close>, \<open>datetime\<close>,
  \<open>sender\<close>, \<open>codepro\<close>, \<open>label\<close> (the empty string for a missing field), in this order,
  joined by \<open>&\<close>, followed by \<open>&\<close> and the secret; the secret is the configured value,
  and the payload's \<open>secret\<close> field only when no value is configured. The received hash
  is the value of \<open>sha1_hash\<close>, else of \<open>md5\<close>, else of \<open>notification_secret\<close>, each
  taken when present and not empty, and it matches when its lower-case form is the
  SHA-1 hex digest of the signature string.
\<close>

theorem signature_base_string:
  "sign_string cfg_secret p =
     dict_get p ''notification_type'' [] @ ''&'' @ dict_get p ''operation_id'' [] @ ''&''
     @ dict_get p ''amount'' [] @ ''&'' @ dict_get p ''currency'' [] @ ''&''
     @ dict_get p ''datetime'' [] @ ''&'' @ dict_get p ''sender'' [] @ ''&''
     @ dict_get p ''codepro'' [] @ ''&'' @ dict_get p ''label'' [] @ ''&''
     @ (if cfg_secret \<noteq> [] then cfg_secret else dict_get p ''secret'' [])
   \<and> received_hash p =
       (case map_of p ''sha1_hash'' of
          Some (c # h) \<Rightarrow> c # h
        | _ \<Rightarrow> (case map_of p ''md5'' of
                  Some (c # h) \<Rightarrow> c # h
                | _ \<Rightarrow> (case map_of p ''notification_secret'' of
                          Some (c # h) \<Rightarrow> c # h
                        | _ \<Rightarrow> [])))
   \<and> digest_matches cfg_secret p =
       (py_lower (received_hash p) = sha1_hexdigest (sign_string cfg_secret p))"
proof (intro conjI)
  show "sign_string cfg_secret p =
     dict_get p ''notification_type'' [] @ ''&'' @ dict_get p ''operation_id'' [] @ ''&''
     @ dict_get p ''amount'' [] @ ''&'' @ dict_get p ''currency'' [] @ ''&''
     @ dict_get p ''datetime'' [] @ ''&'' @ dict_get p ''sender'' [] @ ''&''
     @ dict_get p ''codepro'' [] @ ''&'' @ dict_get p ''label'' [] @ ''&''
     @ (if cfg_secret \<noteq> [] then cfg_secret else dict_get p ''secret'' [])"
    by (simp add: sign_string_def ordered_keys_def signing_secret_def)
  show "received_hash p =
       (case map_of p ''sha1_hash'' of
          Some (c # h) \<Rightarrow> c # h
        | _ \<Rightarrow> (case map_of p ''md5'' of
                  Some (c # h) \<Rightarrow> c # h
                | _ \<Rightarrow> (case map_of p ''notification_secret'' of
                          Some (c # h) \<Rightarrow> c # h
                        | _ \<Rightarrow> [])))"
    by (simp add: received_hash_def py_or_def truthy_def split: option.splits list.splits)
  show "digest_matches cfg_secret p =
       (py_lower (received_hash p) = sha1_hexdigest (sign_string cfg_secret p))"
    by (simp add: digest_matches_def lower_sha1_hexdigest)
qed

text \<open>
  Claim C10. A notification in which none of \<open>sha1_hash\<close>, \<open>md5\<close>,
  \<open>notification_secret\<close> is present with a value that is not empty is rejected by both
  handlers, whatever its other fields and the configured secret: the received hash is
  the empty string, and the SHA-1 hex digest has 40 characters. The ledger is left as
  it was.
\<close>

theorem missing_hash_is_rejected:
  assumes "\<not> truthy (map_of p ''sha1_hash'')" "\<not> truthy (map_of p ''md5'')"
    "\<not> truthy (map_of p ''notification_secret'')"
  shows "received_hash p = []
     \<and> length (sha1_hexdigest (sign_string cfg_secret p)) = 40
     \<and> \<not> bot_is_valid cfg_secret p \<and> \<not> webhook_is_valid cfg_secret p
     \<and> (parse_notification body = p \<longrightarrow>
          on_yoomoney_notification cfg_secret now_iso now_sql body db = (InvalidNotification, db))
     \<and> (normalize_items request_params [] = p \<longrightarrow>
          yoomoney_webhook cfg_secret now_iso now_sql send_ok request_params db
            = (Http400_InvalidSignature, db))"
proof -
  have r: "received_hash p = []"
    using assms by (simp add: received_hash_cases)
  have d: "\<not> digest_matches cfg_secret p"
    using assms by (rule no_hash_no_match)
  show ?thesis
    using r d
    by (simp add: length_sha1_hexdigest bot_is_valid_def webhook_is_valid_def
        on_yoomoney_notification_def yoomoney_webhook_def)
qed

theorem missing_hash_is_rejected_witness:
  "\<not> truthy (map_of (parse_notification body_unsigned) ''sha1_hash'')
   \<and> \<not> truthy (map_of (parse_notification body_unsigned) ''md5'')
   \<and> \<not> truthy (map_of (parse_notification body_unsigned) ''notification_secret'')
   \<and> on_yoomoney_notification ''s3cr3t'' ''2025-01-01T00:00:00'' ''2025-01-01 00:00:00''
        body_unsigned empty_db = (InvalidNotification, empty_db)
   \<and> yoomoney_webhook ''s3cr3t'' ''2025-01-01T00:00:00'' ''2025-01-01 00:00:00'' True
        [(''amount'', ''50.00''), (''codepro'', ''false''), (''label'', ''42'')] empty_db
        = (Http400_InvalidSignature, empty_db)"
proof -
  have n: "normalize_items [(''amount'', ''50.00''), (''codepro'', ''false''), (''label'', ''42'')] []
        = parse_notification body_unsigned"
    by (simp add: parse_unsigned canonical_key_def key_map_def dict_get_def py_lower_def
        lower_char_def)
  have h: "\<not> truthy (map_of (parse_notification body_unsigned) ''sha1_hash'')"
    "\<not> truthy (map_of (parse_notification body_unsigned) ''md5'')"
    "\<not> truthy (map_of (parse_notification body_unsigned) ''notification_secret'')"
    by (simp_all add: parse_unsigned truthy_def)
  show ?thesis
    using h n missing_hash_is_rejected [OF h, of "''s3cr3t''" body_unsigned
        "''2025-01-01T00:00:00''" "''2025-01-01 00:00:00''" empty_db
        "[(''amount'', ''50.00''), (''codepro'', ''false''), (''label'', ''42'')]" True]
    by simp
qed

text \<open>
  Claim C1, as amended. The chat handler accepts a notification exactly when the
  lower-case received hash equals the SHA-1 digest of the signature string and the
  \<open>codepro\<close> field, taken as \<open>false\<close> when it is absent and compared in lower
  case, is \<open>false\<close>; the webhook requires in addition that \<open>currency\<close> is
  \<open>643\<close>. Whenever a handler rejects, the ledger is the one it was given.
\<close>

theorem verification_accepts_iff:
  "(fst (on_yoomoney_notification cfg_secret now_iso now_sql body db) \<noteq> InvalidNotification)
     = (digest_matches cfg_secret (parse_notification body)
        \<and> py_lower (dict_get (parse_notification body) ''codepro'' ''false'') = ''false'')
   \<and> (fst (yoomoney_webhook cfg_secret now_iso now_sql send_ok request_params db)
        \<noteq> Http400_InvalidSignature)
     = (digest_matches cfg_secret (normalize_items request_params [])
        \<and> py_lower (dict_get (normalize_items request_params []) ''codepro'' ''false'') = ''false''
        \<and> map_of (normalize_items request_params []) ''currency'' = Some ''643'')
   \<and> (fst (on_yoomoney_notification cfg_secret now_iso now_sql body db) = InvalidNotification
        \<longrightarrow> snd (on_yoomoney_notification cfg_secret now_iso now_sql body db) = db)
   \<and> (fst (yoomoney_webhook cfg_secret now_iso now_sql send_ok request_params db)
          = Http400_InvalidSignature
        \<longrightarrow> snd (yoomoney_webhook cfg_secret now_iso now_sql send_ok request_params db) = db)"
proof -
  have b: "(fst (on_yoomoney_notification cfg_secret now_iso now_sql body db) \<noteq> InvalidNotification)
             = bot_is_valid cfg_secret (parse_notification body)"
    by (simp add: bot_rejects_iff)
  have w: "(fst (yoomoney_webhook cfg_secret now_iso now_sql send_ok request_params db)
              \<noteq> Http400_InvalidSignature)
             = webhook_is_valid cfg_secret (normalize_items request_params [])"
    by (simp add: webhook_rejects_iff)
  have bu: "fst (on_yoomoney_notification cfg_secret now_iso now_sql body db) = InvalidNotification
        \<longrightarrow> snd (on_yoomoney_notification cfg_secret now_iso now_sql body db) = db"
    by (simp add: bot_rejects_iff bot_rejected_unchanged)
  have wu: "fst (yoomoney_webhook cfg_secret now_iso now_sql send_ok request_params db)
          = Http400_InvalidSignature
        \<longrightarrow> snd (yoomoney_webhook cfg_secret now_iso now_sql send_ok request_params db) = db"
    by (simp add: webhook_rejects_iff webhook_rejected_unchanged)
  show ?thesis
    unfolding b w using bu wu by (simp add: bot_is_valid_def webhook_is_valid_def)
qed

theorem verification_accepts_iff_witness:
  "on_yoomoney_notification ''s3cr3t'' ''2025-01-01T00:00:00'' ''2025-01-01 00:00:00''
        body_codepro empty_db = (InvalidNotification, empty_db)
   \<and> fst (on_yoomoney_notification ''s3cr3t'' ''2025-01-01T00:00:00'' ''2025-01-01 00:00:00''
        body_B empty_db) \<noteq> InvalidNotification
   \<and> fst (yoomoney_webhook ''s3cr3t'' ''2025-01-01T00:00:00'' ''2025-01-01 00:00:00'' True
        request_B empty_db) \<noteq> Http400_InvalidSignature
   \<and> yoomoney_webhook ''s3cr3t'' ''2025-01-01T00:00:00'' ''2025-01-01 00:00:00'' True
        [(''codepro'', ''false''), (''currency'', ''840'')] empty_db
        = (Http400_InvalidSignature, empty_db)"
proof -
  have c: "dict_get (parse_notification body_codepro) ''codepro'' ''false'' = ''true''"
    by (simp add: parse_codepro parsed_def dict_get_def)
  have b: "dict_get (parse_notification body_B) ''codepro'' ''false'' = ''false''"
    "map_of (parse_notification body_B) ''currency'' = Some ''643''"
    by (simp_all add: parse_B parsed_def dict_get_def)
  have d: "digest_matches ''s3cr3t'' (parse_notification body_B)"
    unfolding parse_B by (rule digest_matches_B)
  have r: "normalize_items request_B [] = parse_notification body_B"
    by (simp add: parse_B normalize_request_B)
  have u: "map_of (normalize_items [(''codepro'', ''false''), (''currency'', ''840'')] []) ''currency''
        = Some ''840''"
    by (simp add: canonical_key_def key_map_def dict_get_def py_lower_def lower_char_def)
  have l: "py_lower ''true'' \<noteq> ''false''" "py_lower ''false'' = ''false''"
    by (simp_all add: py_lower_def lower_char_def)
  show ?thesis
    using c b d r u l
      verification_accepts_iff [of "''s3cr3t''" "''2025-01-01T00:00:00''" "''2025-01-01 00:00:00''"
        body_codepro empty_db True "[(''codepro'', ''false''), (''currency'', ''840'')]"]
      verification_accepts_iff [of "''s3cr3t''" "''2025-01-01T00:00:00''" "''2025-01-01 00:00:00''"
        body_B empty_db True request_B]
    by (simp add: prod_eq_iff)
qed

text \<open>
  Claim C1 as stated requires the \<open>codepro\<close> field to equal \<open>false\<close>. The
  notification \<open>body_A\<close> carries \<open>codepro=FALSE\<close> and a matching digest: the
  handler accepts it and credits user 42.
\<close>

theorem verification_accepts_iff_counterexample:
  "fst (on_yoomoney_notification ''s3cr3t'' ''2025-01-01T00:00:00'' ''2025-01-01 00:00:00''
        body_A empty_db) = PaymentConfirmed 42 1
   \<and> bot_is_valid ''s3cr3t'' (parse_notification body_A)
   \<and> \<not> (digest_matches ''s3cr3t'' (parse_notification body_A)
          \<and> map_of (parse_notification body_A) ''codepro'' = Some ''false'')"
proof -
  have v: "bot_is_valid ''s3cr3t'' (parse_notification body_A)"
    unfolding parse_A bot_is_valid_def using digest_matches_A
    by (simp add: parsed_def dict_get_def py_lower_def lower_char_def)
  have c: "map_of (parse_notification body_A) ''codepro'' = Some ''FALSE''"
    by (simp add: parse_A parsed_def)
  have l: "bot_resolve_user (dict_get (parse_notification body_A) ''label'' []) = Inr (Some 42)"
    by (simp add: parse_A parsed_def dict_get_def resolve_user_id_42)
  show ?thesis
    using v c l by (simp add: on_yoomoney_notification_def bot_increment_first)
qed







end
